theory Spec2Isabelle
  imports Main "HOL-Library.Multiset"
begin

section \<open>Library functions the two programs call\<close>

text \<open>
  The server (\<^verbatim>\<open>http_server.go\<close>) and the proxy (\<^verbatim>\<open>proxy.go\<close>) are Go programs.
  A Go \<^verbatim>\<open>string\<close> is a sequence of bytes and \<^verbatim>\<open>len\<close> counts bytes, so it is a
  \<^typ>\<open>string\<close> here. The functions of Go's standard library that the programs call are
  given as HOL functions that follow the library's code on Unix.
\<close>

definition CRLF :: string where
  "CRLF = [CHR 0x0D, CHR 0x0A]"

text \<open>\<^verbatim>\<open>strings.HasPrefix(s, prefix)\<close> and \<^verbatim>\<open>strings.Contains(s, substr)\<close>.\<close>

fun strings_HasPrefix :: "string \<Rightarrow> string \<Rightarrow> bool" where
  "strings_HasPrefix s [] = True"
| "strings_HasPrefix [] (p # ps) = False"
| "strings_HasPrefix (c # s) (p # ps) = (c = p \<and> strings_HasPrefix s ps)"

fun strings_Contains :: "string \<Rightarrow> string \<Rightarrow> bool" where
  "strings_Contains [] substr = (substr = [])"
| "strings_Contains (c # s) substr =
     (strings_HasPrefix (c # s) substr \<or> strings_Contains s substr)"

text \<open>
  The verb \<^verbatim>\<open>%d\<close> of \<^verbatim>\<open>fmt\<close>: the decimal digits of an integer, with a minus sign
  in front of a negative one.
\<close>

definition digit_char :: "nat \<Rightarrow> char" where
  "digit_char d = ''0123456789'' ! d"

fun digits :: "nat \<Rightarrow> string" where
  "digits n = (if n < 10 then [digit_char n] else digits (n div 10) @ [digit_char (n mod 10)])"

declare digits.simps [simp del]

definition fmt_d :: "int \<Rightarrow> string" where
  "fmt_d i = (if i < 0 then CHR ''-'' # digits (nat (- i)) else digits (nat i))"

text \<open>Reading a decimal numeral back, to say what number a \<^verbatim>\<open>Content-Length\<close> value denotes.\<close>

definition digit_val :: "char \<Rightarrow> nat" where
  "digit_val c = of_char c - 48"

definition decimal_value :: "string \<Rightarrow> nat" where
  "decimal_value s = foldl (\<lambda>acc c. 10 * acc + digit_val c) 0 s"

text \<open>
  \<^verbatim>\<open>path/filepath\<close> on Unix, where the only separator is \<^verbatim>\<open>/\<close> and there is no volume
  name. \<^verbatim>\<open>Clean\<close> reads the path element by element: an empty element and \<^verbatim>\<open>.\<close> are
  dropped, \<^verbatim>\<open>..\<close> removes the element written last, is dropped at the root of a rooted path,
  and is kept at the front of a relative one. The result of an empty output is \<^verbatim>\<open>.\<close>.
\<close>

fun split_sep :: "string \<Rightarrow> string list" where
  "split_sep [] = [[]]"
| "split_sep (c # cs) =
     (if c = CHR ''/'' then [] # split_sep cs
      else (case split_sep cs of [] \<Rightarrow> [[c]] | e # es \<Rightarrow> (c # e) # es))"

fun join_sep :: "string list \<Rightarrow> string" where
  "join_sep [] = []"
| "join_sep [e] = e"
| "join_sep (e # es) = e @ ''/'' @ join_sep es"

fun clean_elems :: "bool \<Rightarrow> string list \<Rightarrow> string list \<Rightarrow> string list" where
  "clean_elems rooted [] out = rev out"
| "clean_elems rooted (e # es) out =
     (if e = [] \<or> e = ''.'' then clean_elems rooted es out
      else if e = ''..'' then
        (case out of
           [] \<Rightarrow> if rooted then clean_elems rooted es [] else clean_elems rooted es [''..'']
         | el # below \<Rightarrow>
             if el = ''..'' then clean_elems rooted es (''..'' # out)
             else clean_elems rooted es below)
      else clean_elems rooted es (e # out))"

definition filepath_Clean :: "string \<Rightarrow> string" where
  "filepath_Clean path =
     (if path = [] then ''.''
      else
        let rooted = (hd path = CHR ''/'');
            out = join_sep (clean_elems rooted (split_sep path) [])
        in if rooted then CHR ''/'' # out
           else if out = [] then ''.'' else out)"

text \<open>\<^verbatim>\<open>filepath.Ext\<close>: the suffix from the last dot of the last element, or nothing.\<close>

fun ext_scan :: "string \<Rightarrow> string \<Rightarrow> string" where
  "ext_scan [] acc = []"
| "ext_scan (c # cs) acc =
     (if c = CHR ''/'' then []
      else if c = CHR ''.'' then c # acc
      else ext_scan cs (c # acc))"

definition filepath_Ext :: "string \<Rightarrow> string" where
  "filepath_Ext path = ext_scan (rev path) []"

text \<open>\<^verbatim>\<open>filepath.Dir\<close>: everything up to the last separator, cleaned.\<close>

definition filepath_Dir :: "string \<Rightarrow> string" where
  "filepath_Dir path = filepath_Clean (rev (dropWhile (\<lambda>c. c \<noteq> CHR ''/'') (rev path)))"

text \<open>
  \<^verbatim>\<open>net.SplitHostPort\<close> and \<^verbatim>\<open>net.JoinHostPort\<close>. The split fails with one of the
  reasons of the library's \<^verbatim>\<open>AddrError\<close> (missing port, too many colons, a missing or an
  unexpected bracket); \<^verbatim>\<open>IndexByte\<close> and \<^verbatim>\<open>last_index\<close> are the first and the last
  position of a byte, \<open>None\<close> for the library's \<^verbatim>\<open>-1\<close>.
\<close>

fun IndexByte :: "string \<Rightarrow> char \<Rightarrow> nat option" where
  "IndexByte [] c = None"
| "IndexByte (x # xs) c = (if x = c then Some 0 else map_option Suc (IndexByte xs c))"

definition last_index :: "string \<Rightarrow> char \<Rightarrow> nat option" where
  "last_index s c = map_option (\<lambda>j. length s - 1 - j) (IndexByte (rev s) c)"

datatype addr_error =
    missingPort
  | tooManyColons
  | missingCloseBracket
  | unexpectedOpenBracket
  | unexpectedCloseBracket

definition split_checks ::
  "string \<Rightarrow> string \<Rightarrow> nat \<Rightarrow> nat \<Rightarrow> nat \<Rightarrow> addr_error + (string \<times> string)" where
  "split_checks hostport host i j k =
     (if IndexByte (drop j hostport) CHR ''['' \<noteq> None then Inl unexpectedOpenBracket
      else if IndexByte (drop k hostport) CHR '']'' \<noteq> None then Inl unexpectedCloseBracket
      else Inr (host, drop (i + 1) hostport))"

definition net_SplitHostPort :: "string \<Rightarrow> addr_error + (string \<times> string)" where
  "net_SplitHostPort hostport =
     (case last_index hostport CHR '':'' of
        None \<Rightarrow> Inl missingPort
      | Some i \<Rightarrow>
          if hd hostport = CHR ''['' then
            (case IndexByte hostport CHR '']'' of
               None \<Rightarrow> Inl missingCloseBracket
             | Some endb \<Rightarrow>
                 if endb + 1 = length hostport then Inl missingPort
                 else if endb + 1 = i then
                   split_checks hostport (take (endb - 1) (drop 1 hostport)) i 1 (endb + 1)
                 else if hostport ! (endb + 1) = CHR '':'' then Inl tooManyColons
                 else Inl missingPort)
          else
            let host = take i hostport in
            if IndexByte host CHR '':'' \<noteq> None then Inl tooManyColons
            else split_checks hostport host i 0 0)"

definition net_JoinHostPort :: "string \<Rightarrow> string \<Rightarrow> string" where
  "net_JoinHostPort host port =
     (if IndexByte host CHR '':'' \<noteq> None then ''['' @ host @ '']:'' @ port
      else host @ '':'' @ port)"

section \<open>Requests\<close>

text \<open>
  \<^verbatim>\<open>url.URL\<close> and \<^verbatim>\<open>http.Request\<close>, with the fields the two programs and the library
  functions they call read. \<open>EscapedPath\<close> stands for the result of the method of that name,
  the percent-encoded form of \<open>Path\<close>, which is not recomputed here. \<open>req_Host\<close> is the
  field \<^verbatim>\<open>Host\<close> of the request: for a request read from a connection whose target
  carries no host, the value of its \<^verbatim>\<open>Host\<close> header. The keys of \<open>Header\<close> are in
  canonical form, as the parser stores them.
\<close>

record url =
  Scheme :: string
  Opaque :: string
  Host :: string
  Path :: string
  EscapedPath :: string
  ForceQuery :: bool
  RawQuery :: string

record request =
  Method :: string
  URL :: url
  req_Host :: string
  Header :: "string \<rightharpoonup> string list"
  RequestURI :: string
  Body :: string

text \<open>
  The error of \<^verbatim>\<open>http.ReadRequest\<close>: the value \<^verbatim>\<open>io.EOF\<close> itself, or any other error
  with its message. \<open>Error\<close> is the method \<^verbatim>\<open>Error()\<close>.
\<close>

datatype parse_error = io_EOF | other_error string

fun Error :: "parse_error \<Rightarrow> string" where
  "Error io_EOF = ''EOF''"
| "Error (other_error msg) = msg"



text \<open>\<^verbatim>\<open>(*URL).IsAbs\<close>: a URL is absolute when it has a scheme.\<close>

definition url_IsAbs :: "url \<Rightarrow> bool" where
  "url_IsAbs u = (Scheme u \<noteq> [])"

text \<open>
  \<^verbatim>\<open>(*URL).RequestURI\<close>: the encoded \<^verbatim>\<open>path?query\<close> or \<^verbatim>\<open>opaque?query\<close> string of a URL.
\<close>

definition url_RequestURI :: "url \<Rightarrow> string" where
  "url_RequestURI u =
     (let result =
        (if Opaque u = [] then (if EscapedPath u = [] then ''/'' else EscapedPath u)
         else if strings_HasPrefix (Opaque u) ''//'' then Scheme u @ '':'' @ Opaque u
         else Opaque u)
      in if ForceQuery u \<or> RawQuery u \<noteq> [] then result @ ''?'' @ RawQuery u else result)"

text \<open>
  \<^verbatim>\<open>(*Request).Write\<close> writes the request line from the fields \<^verbatim>\<open>Method\<close> and \<^verbatim>\<open>URL\<close>
  and the header lines from \<^verbatim>\<open>Host\<close> and \<^verbatim>\<open>Header\<close>; it does not read the field
  \<^verbatim>\<open>RequestURI\<close>. For a method other than \<^verbatim>\<open>CONNECT\<close> the target on the request line is
  the URL's \<^verbatim>\<open>RequestURI()\<close>.
\<close>

definition written_target :: "request \<Rightarrow> string" where
  "written_target r = url_RequestURI (URL r)"

section \<open>Effects\<close>

text \<open>
  What a handling unit does to the world, in the order it does it: writes on the client
  connection, calls on the file system and on the network, the release of the semaphore
  slot. Logging goes to the process log and never to a connection; it is left out.
\<close>

datatype event =
    ConnWrite string
  | ConnClose
  | SemRelease
  | OsOpen string
  | OsMkdirAll string
  | OsCreate string
  | FileWrite string string
  | FileClose string
  | NetDial string
  | ReqWrite request
  | RemoteClose

text \<open>
  What the world answers. \<^verbatim>\<open>os.Open\<close> fails or gives a file, whose \<^verbatim>\<open>Stat\<close> fails or
  gives a size and whose bytes \<^verbatim>\<open>io.Copy\<close> reads; \<^verbatim>\<open>os.MkdirAll\<close>, \<^verbatim>\<open>os.Create\<close> and
  the copy of a request body into a file fail (with an error) or not (\<open>None\<close>).
  \<^verbatim>\<open>net.Dial\<close> fails (\<open>None\<close>) or gives an upstream connection, on which writing the
  request fails or not and which then sends its response.
\<close>

datatype os_error = ErrNotExist | ErrOther

definition os_IsNotExist :: "os_error \<Rightarrow> bool" where
  "os_IsNotExist err = (err = ErrNotExist)"

record os_file =
  Stat_Size :: "os_error + int"
  contents :: string

record fs =
  os_Open :: "string \<Rightarrow> os_error + os_file"
  os_MkdirAll :: "string \<Rightarrow> os_error option"
  os_Create :: "string \<Rightarrow> os_error option"
  io_Copy_to_file :: "string \<Rightarrow> string \<Rightarrow> os_error option"

record upstream =
  write_fails :: bool
  response :: string

record net =
  net_Dial :: "string \<Rightarrow> upstream option"

section \<open>The Error Responder\<close>

definition StatusBadRequest :: int where "StatusBadRequest = 400"
definition StatusNotFound :: int where "StatusNotFound = 404"
definition StatusInternalServerError :: int where "StatusInternalServerError = 500"
definition StatusNotImplemented :: int where "StatusNotImplemented = 501"
definition StatusBadGateway :: int where "StatusBadGateway = 502"

text \<open>\<^verbatim>\<open>sendErrorResponse\<close> of \<^verbatim>\<open>http_server.go\<close>: six calls of \<^verbatim>\<open>fmt.Fprintf\<close> on the connection.\<close>

definition sendErrorResponse :: "int \<Rightarrow> string \<Rightarrow> event list" where
  "sendErrorResponse code status =
     (let body = fmt_d code @ '' '' @ status in
      [ConnWrite (''HTTP/1.1 '' @ fmt_d code @ '' '' @ status @ CRLF),
       ConnWrite (''Content-Type: text/plain'' @ CRLF),
       ConnWrite (''Content-Length: '' @ fmt_d (int (length body)) @ CRLF),
       ConnWrite (''Connection: close'' @ CRLF),
       ConnWrite CRLF,
       ConnWrite body])"

text \<open>\<^verbatim>\<open>sendErrorResponse\<close> of \<^verbatim>\<open>proxy.go\<close>, a copy of the server's in the proxy's source.\<close>

definition proxy_sendErrorResponse :: "int \<Rightarrow> string \<Rightarrow> event list" where
  "proxy_sendErrorResponse code status =
     (let body = fmt_d code @ '' '' @ status in
      [ConnWrite (''HTTP/1.1 '' @ fmt_d code @ '' '' @ status @ CRLF),
       ConnWrite (''Content-Type: text/plain'' @ CRLF),
       ConnWrite (''Content-Length: '' @ fmt_d (int (length body)) @ CRLF),
       ConnWrite (''Connection: close'' @ CRLF),
       ConnWrite CRLF,
       ConnWrite body])"

text \<open>The bytes a trace puts on the client connection.\<close>

fun conn_bytes :: "event list \<Rightarrow> string" where
  "conn_bytes [] = []"
| "conn_bytes (ConnWrite s # es) = s @ conn_bytes es"
| "conn_bytes (e # es) = conn_bytes es"

text \<open>The addresses a trace dials and the requests it writes upstream.\<close>

fun dialed :: "event list \<Rightarrow> string list" where
  "dialed [] = []"
| "dialed (NetDial a # es) = a # dialed es"
| "dialed (e # es) = dialed es"

fun forwarded :: "event list \<Rightarrow> request list" where
  "forwarded [] = []"
| "forwarded (ReqWrite r # es) = r # forwarded es"
| "forwarded (e # es) = forwarded es"

section \<open>The server\<close>

definition maxConcurrentRequests :: nat where
  "maxConcurrentRequests = 10"

definition mimeTypes :: "string \<rightharpoonup> string" where
  "mimeTypes = map_of
     [(''.html'', ''text/html''),
      (''.txt'', ''text/plain''),
      (''.gif'', ''image/gif''),
      (''.jpeg'', ''image/jpeg''),
      (''.jpg'', ''image/jpeg''),
      (''.css'', ''text/css'')]"

text \<open>The local path \<^verbatim>\<open>handleGet\<close> resolves (its first four lines).\<close>

definition get_path :: "request \<Rightarrow> string" where
  "get_path req =
     (let path = filepath_Clean (''./'' @ Path (URL req))
      in if path = ''./'' then ''./index.html'' else path)"

definition handleGet :: "fs \<Rightarrow> request \<Rightarrow> event list" where
  "handleGet w req =
     (let path = get_path req;
          ext = filepath_Ext path
      in case mimeTypes ext of
           None \<Rightarrow> sendErrorResponse StatusBadRequest ''Bad Request: Unsupported file type''
         | Some contentType \<Rightarrow>
             OsOpen path #
             (case os_Open w path of
                Inl err \<Rightarrow>
                  if os_IsNotExist err then sendErrorResponse StatusNotFound ''Not Found''
                  else sendErrorResponse StatusInternalServerError ''Internal Server Error''
              | Inr f \<Rightarrow>
                  (case Stat_Size f of
                     Inl err \<Rightarrow>
                       sendErrorResponse StatusInternalServerError ''Internal Server Error''
                   | Inr fileSize \<Rightarrow>
                       [ConnWrite (''HTTP/1.1 200 OK'' @ CRLF),
                        ConnWrite (''Content-Type: '' @ contentType @ CRLF),
                        ConnWrite (''Content-Length: '' @ fmt_d fileSize @ CRLF),
                        ConnWrite (''Connection: close'' @ CRLF),
                        ConnWrite CRLF,
                        ConnWrite (contents f)])
                  @ [FileClose path]))"

definition handlePost :: "fs \<Rightarrow> request \<Rightarrow> event list" where
  "handlePost w req =
     (let path = filepath_Clean (''./'' @ Path (URL req));
          dir = filepath_Dir path
      in OsMkdirAll dir #
         (case os_MkdirAll w dir of
            Some err \<Rightarrow> sendErrorResponse StatusInternalServerError ''Internal Server Error''
          | None \<Rightarrow>
              OsCreate path #
              (case os_Create w path of
                 Some err \<Rightarrow>
                   sendErrorResponse StatusInternalServerError ''Internal Server Error''
               | None \<Rightarrow>
                   FileWrite path (Body req) #
                   (case io_Copy_to_file w path (Body req) of
                      Some err \<Rightarrow>
                        sendErrorResponse StatusInternalServerError ''Internal Server Error''
                    | None \<Rightarrow>
                        [ConnWrite (''HTTP/1.1 201 Created'' @ CRLF),
                         ConnWrite (''Content-Type: text/plain'' @ CRLF),
                         ConnWrite (''Content-Length: 0'' @ CRLF),
                         ConnWrite (''Connection: close'' @ CRLF),
                         ConnWrite CRLF])
                   @ [FileClose path])))"

text \<open>
  \<^verbatim>\<open>handleConnection\<close>: the two deferred calls run when the function returns, the one
  deferred last first, so the slot is released and then the connection is closed, after
  whatever the body did.
\<close>

definition handleConnection :: "fs \<Rightarrow> parse_error + request \<Rightarrow> event list" where
  "handleConnection w parsed =
     (case parsed of
        Inl err \<Rightarrow>
          if err \<noteq> io_EOF \<and> \<not> strings_Contains (Error err) ''connection reset''
          then sendErrorResponse StatusBadRequest ''Bad Request''
          else []
      | Inr req \<Rightarrow>
          if Method req = ''GET'' then handleGet w req
          else if Method req = ''POST'' then handlePost w req
          else sendErrorResponse StatusNotImplemented ''Not Implemented'')
     @ [SemRelease, ConnClose]"

text \<open>
  The accept loop of \<^verbatim>\<open>main\<close> and the handling units it starts, as a step relation.
  \<open>sem\<close> is the number of values in the buffered channel; sending on it waits while it
  holds \<open>maxConcurrentRequests\<close> values and receiving from it waits while it is empty.
  The loop accepts a connection (or fails to, and goes on), sends on the channel, and
  starts a unit; a unit does the next event of its trace. What the file system and the
  client of a connection answer is arbitrary.
\<close>

datatype acceptor = Accepting | Acquiring | Launching

record server =
  sem :: nat
  loop :: acceptor
  units :: "event list multiset"

definition init :: server where
  "init = \<lparr>sem = 0, loop = Accepting, units = {#}\<rparr>"

inductive step :: "server \<Rightarrow> server \<Rightarrow> bool" where
  accept_failed: "loop s = Accepting \<Longrightarrow> step s s"
| accepted: "loop s = Accepting \<Longrightarrow> step s (s\<lparr>loop := Acquiring\<rparr>)"
| acquire:
    "loop s = Acquiring \<Longrightarrow> sem s < maxConcurrentRequests \<Longrightarrow>
     step s (s\<lparr>sem := sem s + 1, loop := Launching\<rparr>)"
| launch:
    "loop s = Launching \<Longrightarrow>
     step s (s\<lparr>loop := Accepting, units := add_mset (handleConnection w parsed) (units s)\<rparr>)"
| unit_release:
    "units s = add_mset (SemRelease # rest) us \<Longrightarrow> 0 < sem s \<Longrightarrow>
     step s (s\<lparr>sem := sem s - 1, units := add_mset rest us\<rparr>)"
| unit_event:
    "units s = add_mset (e # rest) us \<Longrightarrow> e \<noteq> SemRelease \<Longrightarrow>
     step s (s\<lparr>units := add_mset rest us\<rparr>)"

inductive reachable :: "server \<Rightarrow> bool" where
  reachable_init: "reachable init"
| reachable_step: "reachable s \<Longrightarrow> step s t \<Longrightarrow> reachable t"

text \<open>
  A connection is past the gate and not yet done when the loop has sent on the channel
  for it and is about to start its unit, or when its unit has its release still ahead.
\<close>

definition holds_slot :: "event list \<Rightarrow> bool" where
  "holds_slot u = (SemRelease \<in> set u)"

definition in_flight :: "server \<Rightarrow> nat" where
  "in_flight s =
     size (filter_mset holds_slot (units s)) + (if loop s = Launching then 1 else 0)"

section \<open>The proxy\<close>

text \<open>The first two steps of \<^verbatim>\<open>forwardRequest\<close>: the target host, and its port.\<close>

definition target_host :: "request \<Rightarrow> string" where
  "target_host req = (if Host (URL req) = [] then req_Host req else Host (URL req))"

definition ensure_port :: "string \<Rightarrow> string" where
  "ensure_port targetHost =
     (case net_SplitHostPort targetHost of
        Inl err \<Rightarrow> net_JoinHostPort targetHost ''80''
      | Inr host_port \<Rightarrow> targetHost)"

text \<open>The request as \<^verbatim>\<open>forwardRequest\<close> changes it before writing it upstream.\<close>

definition rewrite_request :: "request \<Rightarrow> request" where
  "rewrite_request req =
     req\<lparr>RequestURI := Path (URL req),
         Header := ((Header req)(''Proxy-Connection'' := None))(''Connection'' \<mapsto> [''close''])\<rparr>"

definition forwardRequest :: "net \<Rightarrow> request \<Rightarrow> event list" where
  "forwardRequest n req =
     (if target_host req = []
      then proxy_sendErrorResponse StatusBadRequest ''Bad Request: Missing host in request''
      else
        let targetHost = ensure_port (target_host req)
        in NetDial targetHost #
           (case net_Dial n targetHost of
              None \<Rightarrow>
                proxy_sendErrorResponse StatusBadGateway
                  ''Bad Gateway: Could not connect to host''
            | Some remoteConn \<Rightarrow>
                ReqWrite (rewrite_request req) #
                (if write_fails remoteConn
                 then proxy_sendErrorResponse StatusBadGateway
                        ''Bad Gateway: Error writing to remote''
                 else [ConnWrite (response remoteConn)])
                @ [RemoteClose]))"

definition handleProxyRequest :: "net \<Rightarrow> parse_error + request \<Rightarrow> event list" where
  "handleProxyRequest n parsed =
     (case parsed of
        Inl err \<Rightarrow>
          if err \<noteq> io_EOF \<and> \<not> strings_Contains (Error err) ''connection reset''
          then proxy_sendErrorResponse StatusBadRequest ''Bad Request''
          else []
      | Inr req \<Rightarrow>
          if Method req \<noteq> ''GET''
          then proxy_sendErrorResponse StatusNotImplemented ''Not Implemented''
          else forwardRequest n req)
     @ [ConnClose]"

section \<open>Stated properties and example inputs\<close>

text \<open>What holds of every state the server reaches: no unit has more than one release
  ahead, the channel holds one value for each connection past the gate, and it is never
  over its capacity.\<close>

definition slot_inv :: "server \<Rightarrow> bool" where
  "slot_inv s =
     ((\<forall>u \<in># units s. count_list u SemRelease \<le> 1) \<and>
      sem s = in_flight s \<and> sem s \<le> maxConcurrentRequests)"

text \<open>
  The origin-form of a URL in the words of the specification: the path and the query,
  without scheme and host. The path is the encoded one, \<^verbatim>\<open>/\<close> when it is empty.
\<close>

definition origin_form :: "url \<Rightarrow> string" where
  "origin_form u =
     (if EscapedPath u = [] then ''/'' else EscapedPath u) @
     (if ForceQuery u \<or> RawQuery u \<noteq> [] then ''?'' @ RawQuery u else [])"

text \<open>
  Requests as the parser gives them. \<open>example_request m\<close> is
  \<^verbatim>\<open>m http://example.test/docs?page=2 HTTP/1.1\<close> with a \<^verbatim>\<open>Proxy-Connection\<close> header;
  \<open>origin_form_request\<close> is \<^verbatim>\<open>GET /docs?page=2 HTTP/1.1\<close> with \<^verbatim>\<open>Host: example.test\<close>, and
  \<open>no_host_request\<close> the same without a host; \<open>opaque_request\<close> is
  \<^verbatim>\<open>GET http:foo HTTP/1.1\<close> with \<^verbatim>\<open>Host: example.test\<close>, whose URL the parser reads as a
  scheme and an opaque rest; \<open>root_request\<close> is \<^verbatim>\<open>GET / HTTP/1.1\<close>; \<open>ipv6_request\<close> is
  \<^verbatim>\<open>GET http://[::1]/docs?page=2 HTTP/1.1\<close>.
\<close>

definition example_url :: url where
  "example_url =
     \<lparr>Scheme = ''http'', Opaque = [], Host = ''example.test'', Path = ''/docs'',
      EscapedPath = ''/docs'', ForceQuery = False, RawQuery = ''page=2''\<rparr>"

definition example_request :: "string \<Rightarrow> request" where
  "example_request m =
     \<lparr>Method = m, URL = example_url, req_Host = ''example.test'',
      Header = [''Proxy-Connection'' \<mapsto> [''keep-alive'']],
      RequestURI = ''http://example.test/docs?page=2'', Body = []\<rparr>"

definition origin_form_request :: request where
  "origin_form_request =
     (example_request ''GET'')
       \<lparr>URL := example_url\<lparr>Scheme := [], Host := []\<rparr>, RequestURI := ''/docs?page=2''\<rparr>"

definition no_host_request :: request where
  "no_host_request = origin_form_request\<lparr>req_Host := []\<rparr>"

definition opaque_request :: request where
  "opaque_request =
     (example_request ''GET'')
       \<lparr>URL := \<lparr>Scheme = ''http'', Opaque = ''foo'', Host = [], Path = [],
                EscapedPath = [], ForceQuery = False, RawQuery = []\<rparr>,
        RequestURI := ''http:foo''\<rparr>"

definition root_request :: request where
  "root_request =
     (example_request ''GET'')
       \<lparr>URL := \<lparr>Scheme = [], Opaque = [], Host = [], Path = ''/'',
                EscapedPath = ''/'', ForceQuery = False, RawQuery = []\<rparr>,
        RequestURI := ''/''\<rparr>"

definition ipv6_request :: request where
  "ipv6_request =
     (example_request ''GET'')
       \<lparr>URL := example_url\<lparr>Host := ''[::1]''\<rparr>, req_Host := ''[::1]'',
        RequestURI := ''http://[::1]/docs?page=2''\<rparr>"


definition missing_host_response :: string where
  "missing_host_response =
     ''HTTP/1.1 400 Bad Request: Missing host in request'' @ CRLF @
     ''Content-Type: text/plain'' @ CRLF @
     ''Content-Length: 40'' @ CRLF @ ''Connection: close'' @ CRLF @ CRLF @
     ''400 Bad Request: Missing host in request''"

definition not_implemented_response :: string where
  "not_implemented_response =
     ''HTTP/1.1 501 Not Implemented'' @ CRLF @ ''Content-Type: text/plain'' @ CRLF @
     ''Content-Length: 19'' @ CRLF @ ''Connection: close'' @ CRLF @ CRLF @
     ''501 Not Implemented''"

text \<open>
  A file system with no file in it, a network on which no address answers, and one on
  which every address answers with a fixed response.
\<close>

definition empty_fs :: fs where
  "empty_fs =
     \<lparr>os_Open = (\<lambda>p. Inl ErrNotExist), os_MkdirAll = (\<lambda>p. None),
      os_Create = (\<lambda>p. None), io_Copy_to_file = (\<lambda>p b. None)\<rparr>"

definition unreachable_net :: net where
  "unreachable_net = \<lparr>net_Dial = (\<lambda>a. None)\<rparr>"

definition echo_net :: net where
  "echo_net =
     \<lparr>net_Dial = (\<lambda>a. Some \<lparr>write_fails = False, response = ''HTTP/1.1 200 OK''\<rparr>)\<rparr>"

section \<open>Decimal numerals\<close>

lemma digit_val_digit_char_all: "list_all (\<lambda>d. digit_val (digit_char d) = d) [0..<10]"
  by code_simp

lemma digit_val_digit_char: "d < 10 \<Longrightarrow> digit_val (digit_char d) = d"
  using digit_val_digit_char_all by (simp add: list_all_iff)

lemma decimal_value_snoc: "decimal_value (s @ [c]) = 10 * decimal_value s + digit_val c"
  by (simp add: decimal_value_def)

lemma decimal_value_digits: "decimal_value (digits n) = n"
proof (induction n rule: digits.induct)
  case (1 n)
  show ?case
  proof (cases "n < 10")
    case True
    then show ?thesis
      by (subst digits.simps) (simp add: decimal_value_def digit_val_digit_char)
  next
    case False
    then have "decimal_value (digits n) =
        10 * decimal_value (digits (n div 10)) + digit_val (digit_char (n mod 10))"
      by (subst digits.simps) (simp add: decimal_value_snoc)
    also have "\<dots> = 10 * (n div 10) + n mod 10"
      using 1 False by (simp add: digit_val_digit_char)
    finally show ?thesis by simp
  qed
qed

lemma decimal_value_fmt_d_length: "decimal_value (fmt_d (int n)) = n"
  by (simp add: fmt_d_def decimal_value_digits)

section \<open>The Error Responder's output\<close>

text \<open>
  C8. For every status code and reason string, the bytes \<^verbatim>\<open>sendErrorResponse\<close> writes on
  the connection are, in this order: the status line, the header
  \<^verbatim>\<open>Content-Type: text/plain\<close>, a \<^verbatim>\<open>Content-Length\<close> header, the header
  \<^verbatim>\<open>Connection: close\<close>, an empty line, and the body, which is the decimal code, a space and
  the reason. The value of \<^verbatim>\<open>Content-Length\<close> is the decimal numeral of the number of bytes
  of the body.
\<close>

theorem sendErrorResponse_format:
  "conn_bytes (sendErrorResponse code status) =
     ''HTTP/1.1 '' @ fmt_d code @ '' '' @ status @ CRLF @
     ''Content-Type: text/plain'' @ CRLF @
     ''Content-Length: '' @ fmt_d (int (length (fmt_d code @ '' '' @ status))) @ CRLF @
     ''Connection: close'' @ CRLF @
     CRLF @
     fmt_d code @ '' '' @ status
   \<and> decimal_value (fmt_d (int (length (fmt_d code @ '' '' @ status)))) =
       length (fmt_d code @ '' '' @ status)"
proof
  show "decimal_value (fmt_d (int (length (fmt_d code @ '' '' @ status)))) =
       length (fmt_d code @ '' '' @ status)"
    by (rule decimal_value_fmt_d_length)
qed (simp add: sendErrorResponse_def Let_def)

text \<open>
  C10. The error responder of the server and the copy of it in the proxy do the same: for
  every status code and reason string they make the same writes on the connection.
\<close>

theorem sendErrorResponse_server_proxy_equal:
  "proxy_sendErrorResponse code status = sendErrorResponse code status"
  by (simp add: proxy_sendErrorResponse_def sendErrorResponse_def)

section \<open>Traces\<close>

lemma dialed_append: "dialed (xs @ ys) = dialed xs @ dialed ys"
  by (induction xs rule: dialed.induct) simp_all

lemma forwarded_append: "forwarded (xs @ ys) = forwarded xs @ forwarded ys"
  by (induction xs rule: forwarded.induct) simp_all

lemma conn_bytes_append: "conn_bytes (xs @ ys) = conn_bytes xs @ conn_bytes ys"
  by (induction xs rule: conn_bytes.induct) simp_all

lemma sendErrorResponse_no_release: "count_list (sendErrorResponse code status) SemRelease = 0"
  by (simp add: sendErrorResponse_def Let_def)

lemma proxy_error_dialed: "dialed (proxy_sendErrorResponse code status) = []"
  by (simp add: proxy_sendErrorResponse_def Let_def)

lemma proxy_error_forwarded: "forwarded (proxy_sendErrorResponse code status) = []"
  by (simp add: proxy_sendErrorResponse_def Let_def)



lemma missing_host_bytes:
  "conn_bytes (proxy_sendErrorResponse StatusBadRequest
      ''Bad Request: Missing host in request'') = missing_host_response"
  by code_simp

lemma not_implemented_bytes:
  "conn_bytes (sendErrorResponse StatusNotImplemented ''Not Implemented'') =
     not_implemented_response"
  by code_simp

lemma bad_gateway_bytes:
  "conn_bytes (proxy_sendErrorResponse StatusBadGateway
      ''Bad Gateway: Could not connect to host'') =
     ''HTTP/1.1 502 Bad Gateway: Could not connect to host'' @ CRLF @
     ''Content-Type: text/plain'' @ CRLF @
     ''Content-Length: 42'' @ CRLF @ ''Connection: close'' @ CRLF @ CRLF @
     ''502 Bad Gateway: Could not connect to host''"
  by code_simp

lemma ensure_port_example: "ensure_port ''example.test'' = ''example.test:80''"
  by code_simp

section \<open>The semaphore\<close>

lemma handleGet_no_release: "count_list (handleGet w req) SemRelease = 0"
  by (simp add: handleGet_def Let_def sendErrorResponse_no_release
      split: option.splits sum.splits)

lemma handlePost_no_release: "count_list (handlePost w req) SemRelease = 0"
  by (simp add: handlePost_def Let_def sendErrorResponse_no_release
      split: option.splits sum.splits)

lemma handleConnection_release_once: "count_list (handleConnection w parsed) SemRelease = 1"
  by (simp add: handleConnection_def sendErrorResponse_no_release handleGet_no_release
      handlePost_no_release split: sum.splits)

lemma holds_slot_count: "holds_slot u = (0 < count_list u SemRelease)"
  using count_list_0_iff [of u SemRelease] by (auto simp: holds_slot_def)

lemma slot_inv_init: "slot_inv init"
  by (simp add: slot_inv_def init_def in_flight_def maxConcurrentRequests_def)

lemma slot_inv_step: "step s t \<Longrightarrow> slot_inv s \<Longrightarrow> slot_inv t"
proof (induction rule: step.induct)
  case (accept_failed s)
  then show ?case by simp
next
  case (accepted s)
  then show ?case by (simp add: slot_inv_def in_flight_def)
next
  case (acquire s)
  then show ?case by (simp add: slot_inv_def in_flight_def)
next
  case (launch s w parsed)
  then show ?case
    by (simp add: slot_inv_def in_flight_def holds_slot_count handleConnection_release_once)
next
  case (unit_release s rest us)
  then have "count_list rest SemRelease = 0"
    by (simp add: slot_inv_def)
  with unit_release show ?case
    by (simp add: slot_inv_def in_flight_def holds_slot_count)
next
  case (unit_event s e rest us)
  then show ?case
    by (simp add: slot_inv_def in_flight_def holds_slot_count)
qed

lemma reachable_slot_inv: "reachable s \<Longrightarrow> slot_inv s"
  by (induction rule: reachable.induct) (auto intro: slot_inv_init slot_inv_step)

lemma reachable_launching:
  "reachable \<lparr>sem = 1, loop = Launching, units = {#}\<rparr>"
proof -
  have "step init (init\<lparr>loop := Acquiring\<rparr>)"
    by (rule accepted) (simp add: init_def)
  then have a: "reachable (init\<lparr>loop := Acquiring\<rparr>)"
    by (rule reachable_step [OF reachable_init])
  have "step (init\<lparr>loop := Acquiring\<rparr>)
      ((init\<lparr>loop := Acquiring\<rparr>)
         \<lparr>sem := sem (init\<lparr>loop := Acquiring\<rparr>) + 1, loop := Launching\<rparr>)"
    by (rule acquire) (simp_all add: init_def maxConcurrentRequests_def)
  with a have "reachable
      ((init\<lparr>loop := Acquiring\<rparr>)
         \<lparr>sem := sem (init\<lparr>loop := Acquiring\<rparr>) + 1, loop := Launching\<rparr>)"
    by (rule reachable_step)
  then show ?thesis
    by (simp add: init_def)
qed

text \<open>
  C1. In every state the server reaches, the connections that are past the semaphore gate
  and have not released their slot are as many as the channel holds values, and at most
  \<open>maxConcurrentRequests\<close>, which is 10. The trace of a handling unit has exactly one
  release in it, whatever the parser, the file system and the handlers answer: after a
  parse failure, after the 501 response, after a handler's error and after a handler's
  success.
\<close>

theorem semaphore_bound_and_single_release:
  "(reachable s \<longrightarrow> in_flight s = sem s \<and> in_flight s \<le> maxConcurrentRequests) \<and>
   maxConcurrentRequests = 10 \<and>
   count_list (handleConnection w parsed) SemRelease = 1"
  using reachable_slot_inv [of s] handleConnection_release_once [of w parsed]
  by (auto simp: slot_inv_def maxConcurrentRequests_def)

theorem semaphore_bound_and_single_release_witness:
  "reachable \<lparr>sem = 1, loop = Launching, units = {#}\<rparr> \<and>
   in_flight \<lparr>sem = 1, loop = Launching, units = {#}\<rparr> = 1 \<and>
   in_flight \<lparr>sem = 1, loop = Launching, units = {#}\<rparr> \<le> maxConcurrentRequests \<and>
   count_list (handleConnection empty_fs (Inr root_request)) SemRelease = 1"
  using semaphore_bound_and_single_release
    [of "\<lparr>sem = 1, loop = Launching, units = {#}\<rparr>" empty_fs "Inr root_request"]
    reachable_launching
  by simp

section \<open>Parse failures and dispatch\<close>




text \<open>
  C7. Every parsed request has its route. The server gives a \<^verbatim>\<open>GET\<close> to \<^verbatim>\<open>handleGet\<close>,
  a \<^verbatim>\<open>POST\<close> to \<^verbatim>\<open>handlePost\<close>, and answers any other method with 501 Not Implemented.
  The proxy gives a \<^verbatim>\<open>GET\<close> to \<^verbatim>\<open>forwardRequest\<close> and answers any other method, so
  \<^verbatim>\<open>POST\<close> too, with 501 Not Implemented, and dials nothing. In both programs the bytes
  the client then gets are those of \<open>not_implemented_response\<close>.
\<close>

theorem dispatch_total:
  "(Method req = ''GET'' \<longrightarrow>
      handleConnection w (Inr req) = handleGet w req @ [SemRelease, ConnClose]) \<and>
   (Method req = ''POST'' \<longrightarrow>
      handleConnection w (Inr req) = handlePost w req @ [SemRelease, ConnClose]) \<and>
   (Method req \<noteq> ''GET'' \<and> Method req \<noteq> ''POST'' \<longrightarrow>
      handleConnection w (Inr req) =
        sendErrorResponse StatusNotImplemented ''Not Implemented'' @ [SemRelease, ConnClose] \<and>
      conn_bytes (handleConnection w (Inr req)) = not_implemented_response) \<and>
   (Method req = ''GET'' \<longrightarrow>
      handleProxyRequest n (Inr req) = forwardRequest n req @ [ConnClose]) \<and>
   (Method req \<noteq> ''GET'' \<longrightarrow>
      handleProxyRequest n (Inr req) =
        proxy_sendErrorResponse StatusNotImplemented ''Not Implemented'' @ [ConnClose] \<and>
      conn_bytes (handleProxyRequest n (Inr req)) = not_implemented_response \<and>
      dialed (handleProxyRequest n (Inr req)) = [])"
proof -
  have s: "conn_bytes (sendErrorResponse StatusNotImplemented ''Not Implemented''
      @ [SemRelease, ConnClose]) = not_implemented_response"
    by (simp add: conn_bytes_append not_implemented_bytes)
  have "proxy_sendErrorResponse StatusNotImplemented ''Not Implemented'' =
      sendErrorResponse StatusNotImplemented ''Not Implemented''"
    by (simp add: proxy_sendErrorResponse_def sendErrorResponse_def)
  then have p: "conn_bytes (proxy_sendErrorResponse StatusNotImplemented ''Not Implemented''
      @ [ConnClose]) = not_implemented_response"
    by (simp add: conn_bytes_append not_implemented_bytes)
  have d: "dialed (proxy_sendErrorResponse StatusNotImplemented ''Not Implemented''
      @ [ConnClose]) = []"
    by (simp add: dialed_append proxy_error_dialed)
  show ?thesis
    by (simp add: handleConnection_def handleProxyRequest_def s p d)
qed

theorem dispatch_total_witness:
  "handleConnection empty_fs (Inr (example_request ''GET'')) =
     handleGet empty_fs (example_request ''GET'') @ [SemRelease, ConnClose] \<and>
   handleConnection empty_fs (Inr (example_request ''POST'')) =
     handlePost empty_fs (example_request ''POST'') @ [SemRelease, ConnClose] \<and>
   conn_bytes (handleConnection empty_fs (Inr (example_request ''PUT''))) =
     not_implemented_response \<and>
   handleProxyRequest echo_net (Inr (example_request ''GET'')) =
     forwardRequest echo_net (example_request ''GET'') @ [ConnClose] \<and>
   conn_bytes (handleProxyRequest echo_net (Inr (example_request ''POST''))) =
     not_implemented_response \<and>
   dialed (handleProxyRequest echo_net (Inr (example_request ''POST''))) = []"
proof -
  have mg: "Method (example_request ''GET'') = ''GET''"
    and mp: "Method (example_request ''POST'') = ''POST''"
    and mu: "Method (example_request ''PUT'') \<noteq> ''GET'' \<and>
      Method (example_request ''PUT'') \<noteq> ''POST''"
    and mq: "Method (example_request ''POST'') \<noteq> ''GET''"
    by (simp_all add: example_request_def)
  note dg = dispatch_total [of "example_request ''GET''" empty_fs echo_net]
  note dp = dispatch_total [of "example_request ''POST''" empty_fs echo_net]
  note du = dispatch_total [of "example_request ''PUT''" empty_fs echo_net]
  have g: "handleConnection empty_fs (Inr (example_request ''GET'')) =
      handleGet empty_fs (example_request ''GET'') @ [SemRelease, ConnClose]"
    using mg by (rule dg [THEN conjunct1, rule_format])
  have p: "handleConnection empty_fs (Inr (example_request ''POST'')) =
      handlePost empty_fs (example_request ''POST'') @ [SemRelease, ConnClose]"
    using mp by (rule dp [THEN conjunct2, THEN conjunct1, rule_format])
  have u: "conn_bytes (handleConnection empty_fs (Inr (example_request ''PUT''))) =
      not_implemented_response"
    using mu
    by (rule du [THEN conjunct2, THEN conjunct2, THEN conjunct1, rule_format, THEN conjunct2])
  have pg: "handleProxyRequest echo_net (Inr (example_request ''GET'')) =
      forwardRequest echo_net (example_request ''GET'') @ [ConnClose]"
    using mg
    by (rule dg [THEN conjunct2, THEN conjunct2, THEN conjunct2, THEN conjunct1, rule_format])
  have pp: "conn_bytes (handleProxyRequest echo_net (Inr (example_request ''POST''))) =
      not_implemented_response \<and>
      dialed (handleProxyRequest echo_net (Inr (example_request ''POST''))) = []"
    using mq
    by (rule dp [THEN conjunct2, THEN conjunct2, THEN conjunct2, THEN conjunct2, rule_format,
          THEN conjunct2])
  show ?thesis
    by (intro conjI g p u pg pp [THEN conjunct1] pp [THEN conjunct2])
qed

section \<open>The proxy's forwarder\<close>

lemma forwardRequest_dialed:
  "dialed (forwardRequest n req) =
     (if target_host req = [] then [] else [ensure_port (target_host req)])"
  by (simp add: forwardRequest_def Let_def proxy_error_dialed dialed_append
      split: option.splits)

lemma forwardRequest_forwarded:
  "forwarded (forwardRequest n req) =
     (if target_host req = [] then []
      else case net_Dial n (ensure_port (target_host req)) of
             None \<Rightarrow> [] | Some remoteConn \<Rightarrow> [rewrite_request req])"
  by (simp add: forwardRequest_def Let_def proxy_error_forwarded forwarded_append
      split: option.splits)

lemma handleProxyRequest_GET:
  "Method req = ''GET'' \<Longrightarrow> handleProxyRequest n (Inr req) = forwardRequest n req @ [ConnClose]"
  by (simp add: handleProxyRequest_def)

lemma example_request_forwarded:
  "forwarded (handleProxyRequest echo_net (Inr (example_request ''GET''))) =
     [rewrite_request (example_request ''GET'')]"
  by (simp add: handleProxyRequest_def forwarded_append forwardRequest_forwarded
      target_host_def echo_net_def example_request_def example_url_def)

text \<open>
  C4, as stated: when the target of the request is an absolute URL, the host of that URL
  is the upstream target. It does not hold for an absolute URL without a host: for
  \<^verbatim>\<open>GET http:foo HTTP/1.1\<close> with \<^verbatim>\<open>Host: example.test\<close> the URL has a scheme and an empty
  host, and the proxy dials the host of the \<^verbatim>\<open>Host\<close> header.
\<close>

theorem absolute_url_without_host_counterexample:
  "Method opaque_request = ''GET'' \<and>
   url_IsAbs (URL opaque_request) \<and>
   Host (URL opaque_request) = [] \<and>
   req_Host opaque_request = ''example.test'' \<and>
   dialed (handleProxyRequest echo_net (Inr opaque_request)) = [''example.test:80''] \<and>
   dialed (handleProxyRequest echo_net (Inr opaque_request)) \<noteq>
     [ensure_port (Host (URL opaque_request))]"
proof -
  have m: "Method opaque_request = ''GET''"
    and i: "url_IsAbs (URL opaque_request)"
    and h: "Host (URL opaque_request) = []"
    and r: "req_Host opaque_request = ''example.test''"
    by (simp_all add: opaque_request_def example_request_def url_IsAbs_def)
  have t: "target_host opaque_request = ''example.test''"
    by (simp add: target_host_def h r)
  have d: "dialed (handleProxyRequest echo_net (Inr opaque_request)) = [''example.test:80'']"
    by (simp add: m t handleProxyRequest_GET dialed_append forwardRequest_dialed
        ensure_port_example)
  have e: "ensure_port [] = '':80''"
    by code_simp
  show ?thesis
    by (simp add: m i h r d e)
qed

text \<open>
  C4, amended. For a parsed \<^verbatim>\<open>GET\<close> request in the proxy: when the URL of the request has
  a host that is not empty, the one address dialed is made from it; when its host is empty
  (the target is in origin-form, or is an absolute URL without a host) and the field
  \<^verbatim>\<open>Host\<close> of the request (the value of the \<^verbatim>\<open>Host\<close> header) is not empty, the one address
  dialed is made from that; when both are empty the client gets the 400 response for a
  missing host, whose bytes are those of \<open>missing_host_response\<close>, and nothing is dialed.
\<close>

theorem target_resolution:
  assumes "Method req = ''GET''"
  shows "(Host (URL req) \<noteq> [] \<longrightarrow>
            dialed (handleProxyRequest n (Inr req)) = [ensure_port (Host (URL req))]) \<and>
         (Host (URL req) = [] \<and> req_Host req \<noteq> [] \<longrightarrow>
            dialed (handleProxyRequest n (Inr req)) = [ensure_port (req_Host req)]) \<and>
         (Host (URL req) = [] \<and> req_Host req = [] \<longrightarrow>
            handleProxyRequest n (Inr req) =
              proxy_sendErrorResponse StatusBadRequest ''Bad Request: Missing host in request''
              @ [ConnClose] \<and>
            conn_bytes (handleProxyRequest n (Inr req)) = missing_host_response \<and>
            dialed (handleProxyRequest n (Inr req)) = [] \<and>
            forwarded (handleProxyRequest n (Inr req)) = [])"
proof -
  have d: "dialed (handleProxyRequest n (Inr req)) =
      (if target_host req = [] then [] else [ensure_port (target_host req)])"
    using assms by (simp add: handleProxyRequest_GET dialed_append forwardRequest_dialed)
  have f: "forwarded (handleProxyRequest n (Inr req)) = []" if "target_host req = []"
    using assms that
    by (simp add: handleProxyRequest_GET forwarded_append forwardRequest_forwarded)
  have e: "handleProxyRequest n (Inr req) =
      proxy_sendErrorResponse StatusBadRequest ''Bad Request: Missing host in request''
      @ [ConnClose]" if "target_host req = []"
    using assms that by (simp add: handleProxyRequest_GET forwardRequest_def)
  have c: "conn_bytes (handleProxyRequest n (Inr req)) = missing_host_response"
    if "target_host req = []"
    by (simp add: e [OF that] conn_bytes_append missing_host_bytes)
  show ?thesis
  proof (intro conjI impI)
    assume "Host (URL req) \<noteq> []"
    then show "dialed (handleProxyRequest n (Inr req)) = [ensure_port (Host (URL req))]"
      by (simp add: d target_host_def)
  next
    assume "Host (URL req) = [] \<and> req_Host req \<noteq> []"
    then show "dialed (handleProxyRequest n (Inr req)) = [ensure_port (req_Host req)]"
      by (simp add: d target_host_def)
  next
    assume "Host (URL req) = [] \<and> req_Host req = []"
    then show "handleProxyRequest n (Inr req) =
        proxy_sendErrorResponse StatusBadRequest ''Bad Request: Missing host in request''
        @ [ConnClose]"
      by (simp add: e target_host_def)
  next
    assume "Host (URL req) = [] \<and> req_Host req = []"
    then show "conn_bytes (handleProxyRequest n (Inr req)) = missing_host_response"
      by (simp add: c target_host_def)
  next
    assume "Host (URL req) = [] \<and> req_Host req = []"
    then show "dialed (handleProxyRequest n (Inr req)) = []"
      by (simp add: d target_host_def)
  next
    assume "Host (URL req) = [] \<and> req_Host req = []"
    then show "forwarded (handleProxyRequest n (Inr req)) = []"
      by (simp add: f target_host_def)
  qed
qed

theorem target_resolution_witness:
  "dialed (handleProxyRequest echo_net (Inr (example_request ''GET''))) =
     [''example.test:80''] \<and>
   dialed (handleProxyRequest echo_net (Inr origin_form_request)) = [''example.test:80''] \<and>
   conn_bytes (handleProxyRequest echo_net (Inr no_host_request)) =
     ''HTTP/1.1 400 Bad Request: Missing host in request'' @ CRLF @
     ''Content-Type: text/plain'' @ CRLF @
     ''Content-Length: 40'' @ CRLF @ ''Connection: close'' @ CRLF @ CRLF @
     ''400 Bad Request: Missing host in request'' \<and>
   dialed (handleProxyRequest echo_net (Inr no_host_request)) = [] \<and>
   forwarded (handleProxyRequest echo_net (Inr no_host_request)) = []"
proof -
  have m1: "Method (example_request ''GET'') = ''GET''"
    and h1: "Host (URL (example_request ''GET'')) = ''example.test''"
    by (simp_all add: example_request_def example_url_def)
  have m2: "Method origin_form_request = ''GET''"
    and h2: "Host (URL origin_form_request) = []"
    and r2: "req_Host origin_form_request = ''example.test''"
    by (simp_all add: origin_form_request_def example_request_def example_url_def)
  have m3: "Method no_host_request = ''GET''"
    and h3: "Host (URL no_host_request) = [] \<and> req_Host no_host_request = []"
    by (simp_all add: no_host_request_def origin_form_request_def example_request_def
        example_url_def)
  have "Host (URL (example_request ''GET'')) \<noteq> []"
    by (simp add: h1)
  then have a: "dialed (handleProxyRequest echo_net (Inr (example_request ''GET''))) =
      [ensure_port (Host (URL (example_request ''GET'')))]"
    by (rule target_resolution [OF m1, THEN conjunct1, rule_format])
  have "Host (URL origin_form_request) = [] \<and> req_Host origin_form_request \<noteq> []"
    by (simp add: h2 r2)
  then have b: "dialed (handleProxyRequest echo_net (Inr origin_form_request)) =
      [ensure_port (req_Host origin_form_request)]"
    by (rule target_resolution [OF m2, THEN conjunct2, THEN conjunct1, rule_format])
  note c = target_resolution [OF m3, THEN conjunct2, THEN conjunct2, rule_format, OF h3]
  have cb: "conn_bytes (handleProxyRequest echo_net (Inr no_host_request)) =
      missing_host_response"
    by (rule c [THEN conjunct2, THEN conjunct1])
  have cd: "dialed (handleProxyRequest echo_net (Inr no_host_request)) = []"
    by (rule c [THEN conjunct2, THEN conjunct2, THEN conjunct1])
  have cf: "forwarded (handleProxyRequest echo_net (Inr no_host_request)) = []"
    by (rule c [THEN conjunct2, THEN conjunct2, THEN conjunct2])
  show ?thesis
    by (intro conjI cd cf)
      (simp_all only: a b cb h1 r2 ensure_port_example missing_host_response_def)
qed

text \<open>
  C5. For a \<^verbatim>\<open>GET\<close> request in the proxy with a target host, when \<^verbatim>\<open>net.Dial\<close> fails: the
  address is dialed once, the client gets the 502 response for a failed connection and
  nothing else, and no request is written upstream.
\<close>

theorem connect_failure:
  assumes "Method req = ''GET''" and "target_host req \<noteq> []"
    and "net_Dial n (ensure_port (target_host req)) = None"
  shows "handleProxyRequest n (Inr req) =
           NetDial (ensure_port (target_host req)) #
           proxy_sendErrorResponse StatusBadGateway ''Bad Gateway: Could not connect to host''
           @ [ConnClose] \<and>
         dialed (handleProxyRequest n (Inr req)) = [ensure_port (target_host req)] \<and>
         forwarded (handleProxyRequest n (Inr req)) = [] \<and>
         conn_bytes (handleProxyRequest n (Inr req)) =
           conn_bytes (proxy_sendErrorResponse StatusBadGateway
             ''Bad Gateway: Could not connect to host'')"
proof -
  have t: "handleProxyRequest n (Inr req) =
      NetDial (ensure_port (target_host req)) #
      proxy_sendErrorResponse StatusBadGateway ''Bad Gateway: Could not connect to host''
      @ [ConnClose]"
    using assms by (simp add: handleProxyRequest_GET forwardRequest_def Let_def)
  have d: "dialed (handleProxyRequest n (Inr req)) = [ensure_port (target_host req)]"
    using assms by (simp add: handleProxyRequest_GET dialed_append forwardRequest_dialed)
  have f: "forwarded (handleProxyRequest n (Inr req)) = []"
    using assms by (simp add: handleProxyRequest_GET forwarded_append forwardRequest_forwarded)
  have c: "conn_bytes (handleProxyRequest n (Inr req)) =
      conn_bytes (proxy_sendErrorResponse StatusBadGateway
        ''Bad Gateway: Could not connect to host'')"
    by (simp add: t conn_bytes_append)
  show ?thesis
    using t d f c by simp
qed

theorem connect_failure_witness:
  "net_Dial unreachable_net ''example.test:80'' = None \<and>
   dialed (handleProxyRequest unreachable_net (Inr (example_request ''GET''))) =
     [''example.test:80''] \<and>
   forwarded (handleProxyRequest unreachable_net (Inr (example_request ''GET''))) = [] \<and>
   conn_bytes (handleProxyRequest unreachable_net (Inr (example_request ''GET''))) =
     ''HTTP/1.1 502 Bad Gateway: Could not connect to host'' @ CRLF @
     ''Content-Type: text/plain'' @ CRLF @
     ''Content-Length: 42'' @ CRLF @ ''Connection: close'' @ CRLF @ CRLF @
     ''502 Bad Gateway: Could not connect to host''"
proof -
  have m: "Method (example_request ''GET'') = ''GET''"
    by (simp add: example_request_def)
  have h: "target_host (example_request ''GET'') = ''example.test''"
    by (simp add: target_host_def example_request_def example_url_def)
  have u: "net_Dial unreachable_net a = None" for a
    by (simp add: unreachable_net_def)
  have h': "target_host (example_request ''GET'') \<noteq> []"
    by (simp add: h)
  note cf = connect_failure [OF m h' u]
  have d: "dialed (handleProxyRequest unreachable_net (Inr (example_request ''GET''))) =
      [ensure_port (target_host (example_request ''GET''))]"
    by (rule cf [THEN conjunct2, THEN conjunct1])
  have f: "forwarded (handleProxyRequest unreachable_net (Inr (example_request ''GET''))) = []"
    by (rule cf [THEN conjunct2, THEN conjunct2, THEN conjunct1])
  have c: "conn_bytes (handleProxyRequest unreachable_net (Inr (example_request ''GET''))) =
      conn_bytes (proxy_sendErrorResponse StatusBadGateway
        ''Bad Gateway: Could not connect to host'')"
    by (rule cf [THEN conjunct2, THEN conjunct2, THEN conjunct2])
  show ?thesis
    by (intro conjI u f) (simp_all only: d c h ensure_port_example bad_gateway_bytes)
qed

text \<open>
  C3, as stated: the target on the request line the proxy writes upstream is the
  origin-form of the URL, its path and query. It does not hold for a request whose URL has
  an opaque part: for \<^verbatim>\<open>GET http:foo HTTP/1.1\<close> the proxy dials the host of the \<^verbatim>\<open>Host\<close>
  header and writes the target \<^verbatim>\<open>foo\<close>, where the origin-form of a URL with an empty path
  is \<^verbatim>\<open>/\<close>.
\<close>

theorem opaque_target_counterexample:
  "Method opaque_request = ''GET'' \<and>
   forwarded (handleProxyRequest echo_net (Inr opaque_request)) =
     [rewrite_request opaque_request] \<and>
   written_target (rewrite_request opaque_request) = ''foo'' \<and>
   origin_form (URL opaque_request) = ''/'' \<and>
   written_target (rewrite_request opaque_request) \<noteq> origin_form (URL opaque_request)"
  by (simp add: opaque_request_def example_request_def handleProxyRequest_GET forwarded_append
      forwardRequest_forwarded target_host_def echo_net_def rewrite_request_def
      written_target_def url_RequestURI_def origin_form_def)

text \<open>
  C3, amended. For every \<^verbatim>\<open>GET\<close> request the proxy writes upstream, the target on the
  request line is the request URI of its URL, which has neither the scheme nor the host
  of what the client sent: when the URL has no opaque part it is the origin-form, the
  encoded path (\<^verbatim>\<open>/\<close> when empty) and the query; when the URL has an opaque part it is that
  part and the query. The request written has no \<^verbatim>\<open>Proxy-Connection\<close> header and its
  \<^verbatim>\<open>Connection\<close> header is \<^verbatim>\<open>close\<close>. (The statement \<^verbatim>\<open>req.RequestURI = req.URL.Path\<close> of
  \<^verbatim>\<open>forwardRequest\<close> sets a field that \<^verbatim>\<open>Write\<close> does not read; the query is not lost.)
\<close>

theorem forwarded_request_rewritten:
  assumes "Method req = ''GET''"
    and "r \<in> set (forwarded (handleProxyRequest n (Inr req)))"
  shows "written_target r = url_RequestURI (URL req) \<and>
         (Opaque (URL req) = [] \<longrightarrow> written_target r = origin_form (URL req)) \<and>
         (Opaque (URL req) \<noteq> [] \<and> \<not> strings_HasPrefix (Opaque (URL req)) ''//'' \<longrightarrow>
            written_target r =
              Opaque (URL req) @
              (if ForceQuery (URL req) \<or> RawQuery (URL req) \<noteq> []
               then ''?'' @ RawQuery (URL req) else [])) \<and>
         Header r ''Proxy-Connection'' = None \<and>
         Header r ''Connection'' = Some [''close'']"
proof -
  from assms have "r = rewrite_request req"
    by (simp add: handleProxyRequest_GET forwarded_append forwardRequest_forwarded
        split: if_splits option.splits)
  then show ?thesis
    by (simp add: rewrite_request_def written_target_def url_RequestURI_def origin_form_def)
qed

theorem forwarded_request_rewritten_witness:
  "rewrite_request (example_request ''GET'') \<in>
     set (forwarded (handleProxyRequest echo_net (Inr (example_request ''GET'')))) \<and>
   Header (example_request ''GET'') ''Proxy-Connection'' = Some [''keep-alive''] \<and>
   written_target (rewrite_request (example_request ''GET'')) = ''/docs?page=2'' \<and>
   Header (rewrite_request (example_request ''GET'')) ''Proxy-Connection'' = None \<and>
   Header (rewrite_request (example_request ''GET'')) ''Connection'' = Some [''close'']"
proof -
  have m: "Method (example_request ''GET'') = ''GET''"
    by (simp add: example_request_def)
  have i: "rewrite_request (example_request ''GET'') \<in>
      set (forwarded (handleProxyRequest echo_net (Inr (example_request ''GET''))))"
    by (simp add: example_request_forwarded)
  have o: "Opaque (URL (example_request ''GET'')) = []"
    by (simp add: example_request_def example_url_def)
  have f: "origin_form (URL (example_request ''GET'')) = ''/docs?page=2''"
    by (simp add: origin_form_def example_request_def example_url_def)
  have k: "Header (example_request ''GET'') ''Proxy-Connection'' = Some [''keep-alive'']"
    by (simp add: example_request_def)
  note fr = forwarded_request_rewritten [OF m i]
  have a: "written_target (rewrite_request (example_request ''GET'')) =
      origin_form (URL (example_request ''GET''))"
    using o by (rule fr [THEN conjunct2, THEN conjunct1, rule_format])
  have b: "Header (rewrite_request (example_request ''GET'')) ''Proxy-Connection'' = None"
    by (rule fr [THEN conjunct2, THEN conjunct2, THEN conjunct2, THEN conjunct1])
  have c: "Header (rewrite_request (example_request ''GET'')) ''Connection'' =
      Some [''close'']"
    by (rule fr [THEN conjunct2, THEN conjunct2, THEN conjunct2, THEN conjunct2])
  show ?thesis
    by (intro conjI i k b c) (simp only: a f)
qed

section \<open>Two inputs on which the code misses what it is meant to do\<close>

lemma ensure_port_cases:
  "ensure_port ''example.test:8080'' = ''example.test:8080'' \<and>
   ensure_port ''::1'' = ''[::1]:80'' \<and>
   ensure_port ''[::1]:8080'' = ''[::1]:8080'' \<and>
   net_SplitHostPort ''[::1]'' = Inl missingPort"
  by code_simp

text \<open>
  C6, at the host \<^verbatim>\<open>[::1]\<close>, an IPv6 literal without a port as a URL and a \<^verbatim>\<open>Host\<close>
  header carry it: \<^verbatim>\<open>net.SplitHostPort\<close> fails (the port is missing), and
  \<^verbatim>\<open>net.JoinHostPort\<close>, which is for a host without brackets, puts a second pair of
  brackets around it. The proxy dials \<^verbatim>\<open>[[::1]]:80\<close> and not \<^verbatim>\<open>[::1]:80\<close>.
\<close>

theorem bracketed_ipv6_dial:
  "dialed (handleProxyRequest n (Inr ipv6_request)) = [''[[::1]]:80'']"
proof -
  have m: "Method ipv6_request = ''GET''"
    by (simp add: ipv6_request_def example_request_def)
  have t: "target_host ipv6_request = ''[::1]''"
    by (simp add: target_host_def ipv6_request_def example_request_def example_url_def)
  have p: "ensure_port ''[::1]'' = ''[[::1]]:80''"
    by code_simp
  show ?thesis
    by (simp add: m t p handleProxyRequest_GET dialed_append forwardRequest_dialed)
qed

lemma filepath_Clean_never_dot_slash:
  "filepath_Clean (''./'' @ ''/'') = ''.'' \<and> filepath_Ext ''.'' = ''.'' \<and>
   mimeTypes ''.'' = None"
  by code_simp

text \<open>
  C9, at the request \<^verbatim>\<open>GET / HTTP/1.1\<close>: \<^verbatim>\<open>filepath.Clean\<close> gives \<^verbatim>\<open>.\<close> for \<^verbatim>\<open>.//\<close>, never
  \<^verbatim>\<open>./\<close>, so the comparison that is to put \<^verbatim>\<open>index.html\<close> in its place is false. The
  path \<^verbatim>\<open>handleGet\<close> resolves is \<^verbatim>\<open>.\<close>, whose extension is no key of \<^verbatim>\<open>mimeTypes\<close>, and the
  client gets the 400 response for an unsupported file type before any file is opened.
\<close>

theorem root_path_resolves_to_dot:
  "get_path root_request = ''.'' \<and>
   handleConnection w (Inr root_request) =
     sendErrorResponse StatusBadRequest ''Bad Request: Unsupported file type''
     @ [SemRelease, ConnClose]"
proof -
  have p: "get_path root_request = ''.''"
    by code_simp
  have x: "mimeTypes (filepath_Ext ''.'') = None"
    by code_simp
  have m: "Method root_request = ''GET''"
    by (simp add: root_request_def example_request_def)
  show ?thesis
    by (simp add: p x m handleConnection_def handleGet_def)
qed

end
